theory Spec2Isabelle
  imports Complex_Main
begin

section \<open>Easing functions (src/util/anim\_ease.ts)\<close>

text \<open>
  The easing functions take the current time \<open>t\<close>, the start value \<open>b\<close>, the change
  \<open>c\<close> and the duration \<open>d\<close>. The source computes on JavaScript numbers; the model
  computes on the reals, which is the exact arithmetic the closed forms are written in.
  Three points of the translation are fixed here once:
  \<^item> JavaScript evaluates operands from left to right, so an assignment inside an
    expression (\<^verbatim>\<open>(t /= d) * t\<close>) is a \<open>let\<close> that binds the new \<open>t\<close> for everything to
    its right;
  \<^item> \<^verbatim>\<open>x ** n\<close> with a literal natural exponent is \<open>x ^ n\<close>, and \<^verbatim>\<open>2 ** x\<close> or
    \<^verbatim>\<open>Math.pow(2, x)\<close> with a computed exponent is \<open>2 powr x\<close>;
  \<^item> a division by zero is \<open>0\<close> in HOL and \<open>NaN\<close> or \<open>\<plusminus>Infinity\<close> in the source, so
    no statement below evaluates a quotient whose divisor is zero.
\<close>

text \<open>
  Modelled from the spec: the constants \<^verbatim>\<open>twoMathPi\<close> and \<^verbatim>\<open>halfPI\<close> are imported from
  \<^verbatim>\<open>../constants\<close>, which is not among the sources; the spec writes them \<open>2\<pi>\<close> and
  \<open>\<pi>/2\<close>.
\<close>

definition twoMathPi :: real where
  "twoMathPi = 2 * pi"

definition halfPI :: real where
  "halfPI = pi / 2"

subsection \<open>The helpers of the elastic family\<close>

text \<open>
  \<^verbatim>\<open>normalize\<close> returns the object \<^verbatim>\<open>{ a, c, p, s }\<close>. The function is named
  \<open>normalize_ease\<close> here, since \<open>normalize\<close> is a constant of the library.
\<close>

record normalized =
  norm_a :: real
  norm_c :: real
  norm_p :: real
  norm_s :: real

definition normalize_ease :: "real \<Rightarrow> real \<Rightarrow> real \<Rightarrow> real \<Rightarrow> normalized" where
  "normalize_ease a c p s =
     (if a < \<bar>c\<bar> then
        \<lparr>norm_a = c, norm_c = c, norm_p = p, norm_s = p / 4\<rparr>
      else if c = 0 \<and> a = 0 then
        \<lparr>norm_a = a, norm_c = c, norm_p = p, norm_s = p / twoMathPi * arcsin 1\<rparr>
      else
        \<lparr>norm_a = a, norm_c = c, norm_p = p, norm_s = p / twoMathPi * arcsin (c / a)\<rparr>)"

definition elastic :: "real \<Rightarrow> real \<Rightarrow> real \<Rightarrow> real \<Rightarrow> real \<Rightarrow> real" where
  "elastic a s p t d =
     (let t = t - 1 in
      a * 2 powr (10 * t) * sin ((t * d - s) * twoMathPi / p))"

subsection \<open>Polynomial families\<close>

definition easeInQuad :: "real \<Rightarrow> real \<Rightarrow> real \<Rightarrow> real \<Rightarrow> real" where
  "easeInQuad t b c d = (let t = t / d in c * t * t + b)"

definition easeOutQuad :: "real \<Rightarrow> real \<Rightarrow> real \<Rightarrow> real \<Rightarrow> real" where
  "easeOutQuad t b c d = (let t = t / d in - c * t * (t - 2) + b)"

text \<open>
  Each in-out curve normalises \<open>t\<close> by \<open>d / 2\<close> and takes one of two closed forms. The two
  forms are named (\<open>_lower\<close> for the branch \<^verbatim>\<open>t < 1\<close>, \<open>_upper\<close> for the other), both as
  functions of the normalised time, so that they can be compared at the midpoint.
\<close>

definition easeInOutQuad_lower :: "real \<Rightarrow> real \<Rightarrow> real \<Rightarrow> real" where
  "easeInOutQuad_lower t b c = c / 2 * t ^ 2 + b"

definition easeInOutQuad_upper :: "real \<Rightarrow> real \<Rightarrow> real \<Rightarrow> real" where
  "easeInOutQuad_upper t b c = (let t = t - 1 in - c / 2 * (t * (t - 2) - 1) + b)"

definition easeInOutQuad :: "real \<Rightarrow> real \<Rightarrow> real \<Rightarrow> real \<Rightarrow> real" where
  "easeInOutQuad t b c d =
     (let t = t / (d / 2) in
      if t < 1 then easeInOutQuad_lower t b c else easeInOutQuad_upper t b c)"

definition easeInCubic :: "real \<Rightarrow> real \<Rightarrow> real \<Rightarrow> real \<Rightarrow> real" where
  "easeInCubic t b c d = (let t = t / d in c * t * t * t + b)"

text \<open>
  In \<^verbatim>\<open>(t /= d - 1)\<close> the compound assignment binds weaker than the subtraction: the
  new \<open>t\<close> is \<open>t / (d - 1)\<close>. The quartic sibling is written \<^verbatim>\<open>(t = t / d - 1)\<close>.
\<close>

definition easeOutCubic :: "real \<Rightarrow> real \<Rightarrow> real \<Rightarrow> real \<Rightarrow> real" where
  "easeOutCubic t b c d = (let t = t / (d - 1) in c * (t * t ^ 2 + 1) + b)"

definition easeInOutCubic_lower :: "real \<Rightarrow> real \<Rightarrow> real \<Rightarrow> real" where
  "easeInOutCubic_lower t b c = c / 2 * t ^ 3 + b"

definition easeInOutCubic_upper :: "real \<Rightarrow> real \<Rightarrow> real \<Rightarrow> real" where
  "easeInOutCubic_upper t b c = (let t = t - 2 in c / 2 * (t * t ^ 2 + 2) + b)"

definition easeInOutCubic :: "real \<Rightarrow> real \<Rightarrow> real \<Rightarrow> real \<Rightarrow> real" where
  "easeInOutCubic t b c d =
     (let t = t / (d / 2) in
      if t < 1 then easeInOutCubic_lower t b c else easeInOutCubic_upper t b c)"

definition easeInQuart :: "real \<Rightarrow> real \<Rightarrow> real \<Rightarrow> real \<Rightarrow> real" where
  "easeInQuart t b c d = (let t = t / d in c * t * t ^ 3 + b)"

definition easeOutQuart :: "real \<Rightarrow> real \<Rightarrow> real \<Rightarrow> real \<Rightarrow> real" where
  "easeOutQuart t b c d = (let t = t / d - 1 in - c * (t * t ^ 3 - 1) + b)"

definition easeInOutQuart_lower :: "real \<Rightarrow> real \<Rightarrow> real \<Rightarrow> real" where
  "easeInOutQuart_lower t b c = c / 2 * t ^ 4 + b"

definition easeInOutQuart_upper :: "real \<Rightarrow> real \<Rightarrow> real \<Rightarrow> real" where
  "easeInOutQuart_upper t b c = (let t = t - 2 in - c / 2 * (t * t ^ 3 - 2) + b)"

definition easeInOutQuart :: "real \<Rightarrow> real \<Rightarrow> real \<Rightarrow> real \<Rightarrow> real" where
  "easeInOutQuart t b c d =
     (let t = t / (d / 2) in
      if t < 1 then easeInOutQuart_lower t b c else easeInOutQuart_upper t b c)"

definition easeInQuint :: "real \<Rightarrow> real \<Rightarrow> real \<Rightarrow> real \<Rightarrow> real" where
  "easeInQuint t b c d = (let t = t / d in c * t * t ^ 4 + b)"

definition easeOutQuint :: "real \<Rightarrow> real \<Rightarrow> real \<Rightarrow> real \<Rightarrow> real" where
  "easeOutQuint t b c d = (let t = t / (d - 1) in c * (t * t ^ 4 + 1) + b)"

definition easeInOutQuint_lower :: "real \<Rightarrow> real \<Rightarrow> real \<Rightarrow> real" where
  "easeInOutQuint_lower t b c = c / 2 * t ^ 5 + b"

definition easeInOutQuint_upper :: "real \<Rightarrow> real \<Rightarrow> real \<Rightarrow> real" where
  "easeInOutQuint_upper t b c = (let t = t - 2 in c / 2 * (t * t ^ 4 + 2) + b)"

definition easeInOutQuint :: "real \<Rightarrow> real \<Rightarrow> real \<Rightarrow> real \<Rightarrow> real" where
  "easeInOutQuint t b c d =
     (let t = t / (d / 2) in
      if t < 1 then easeInOutQuint_lower t b c else easeInOutQuint_upper t b c)"

subsection \<open>Sinusoidal family\<close>

definition easeInSine :: "real \<Rightarrow> real \<Rightarrow> real \<Rightarrow> real \<Rightarrow> real" where
  "easeInSine t b c d = - c * cos (t / d * halfPI) + c + b"

definition easeOutSine :: "real \<Rightarrow> real \<Rightarrow> real \<Rightarrow> real \<Rightarrow> real" where
  "easeOutSine t b c d = c * sin (t / d * halfPI) + b"

definition easeInOutSine :: "real \<Rightarrow> real \<Rightarrow> real \<Rightarrow> real \<Rightarrow> real" where
  "easeInOutSine t b c d = - c / 2 * (cos (pi * t / d) - 1) + b"

subsection \<open>Exponential family\<close>

definition easeInExpo :: "real \<Rightarrow> real \<Rightarrow> real \<Rightarrow> real \<Rightarrow> real" where
  "easeInExpo t b c d = (if t = 0 then b else c * 2 powr (10 * (t / d - 1)) + b)"

definition easeOutExpo :: "real \<Rightarrow> real \<Rightarrow> real \<Rightarrow> real \<Rightarrow> real" where
  "easeOutExpo t b c d =
     (if t = d then b + c else c * - (2 powr (- 10 * t / d) + 1) + b)"

definition easeInOutExpo_lower :: "real \<Rightarrow> real \<Rightarrow> real \<Rightarrow> real" where
  "easeInOutExpo_lower t b c = c / 2 * 2 powr (10 * (t - 1)) + b"

definition easeInOutExpo_upper :: "real \<Rightarrow> real \<Rightarrow> real \<Rightarrow> real" where
  "easeInOutExpo_upper t b c = (let t = t - 1 in c / 2 * - (2 powr (- 10 * t) + 2) + b)"

definition easeInOutExpo :: "real \<Rightarrow> real \<Rightarrow> real \<Rightarrow> real \<Rightarrow> real" where
  "easeInOutExpo t b c d =
     (if t = 0 then b
      else if t = d then b + c
      else
        (let t = t / (d / 2) in
         if t < 1 then easeInOutExpo_lower t b c else easeInOutExpo_upper t b c))"

subsection \<open>Circular family\<close>

definition easeInCirc :: "real \<Rightarrow> real \<Rightarrow> real \<Rightarrow> real \<Rightarrow> real" where
  "easeInCirc t b c d = (let t = t / d in - c * (sqrt (1 - t * t) - 1) + b)"

definition easeOutCirc :: "real \<Rightarrow> real \<Rightarrow> real \<Rightarrow> real \<Rightarrow> real" where
  "easeOutCirc t b c d = (let t = t / d - 1 in c * sqrt (1 - t * t) + b)"

definition easeInOutCirc_lower :: "real \<Rightarrow> real \<Rightarrow> real \<Rightarrow> real" where
  "easeInOutCirc_lower t b c = - c / 2 * (sqrt (1 - t ^ 2) - 1) + b"

definition easeInOutCirc_upper :: "real \<Rightarrow> real \<Rightarrow> real \<Rightarrow> real" where
  "easeInOutCirc_upper t b c = (let t = t - 2 in c / 2 * (sqrt (1 - t * t) + 1) + b)"

definition easeInOutCirc :: "real \<Rightarrow> real \<Rightarrow> real \<Rightarrow> real \<Rightarrow> real" where
  "easeInOutCirc t b c d =
     (let t = t / (d / 2) in
      if t < 1 then easeInOutCirc_lower t b c else easeInOutCirc_upper t b c)"

subsection \<open>Elastic family\<close>



definition easeInOutElastic_lower :: "normalized \<Rightarrow> real \<Rightarrow> real \<Rightarrow> real \<Rightarrow> real" where
  "easeInOutElastic_lower n t b d =
     - 0.5 * elastic (norm_a n) (norm_s n) (norm_p n) t d + b"

definition easeInOutElastic_upper :: "normalized \<Rightarrow> real \<Rightarrow> real \<Rightarrow> real \<Rightarrow> real" where
  "easeInOutElastic_upper n t b d =
     (let t = t - 1 in
      norm_a n * 2 powr (- 10 * t)
        * sin ((t * d - norm_s n) * twoMathPi / norm_p n) * 0.5 + norm_c n + b)"

definition easeInOutElastic :: "real \<Rightarrow> real \<Rightarrow> real \<Rightarrow> real \<Rightarrow> real" where
  "easeInOutElastic t b c d =
     (let s = 1.70158; a = c; p = (0::real) in
      if t = 0 then b
      else
        (let t = t / (d / 2) in
         if t = 2 then b + c
         else
           (let p = (if p = 0 then d * (0.3 * 1.5) else p);
                n = normalize_ease a c p s
            in if t < 1 then easeInOutElastic_lower n t b d
               else easeInOutElastic_upper n t b d)))"

subsection \<open>Back family\<close>

text \<open>The optional fifth parameter \<open>s\<close> is explicit; its default is \<open>back_default_s\<close>.\<close>

definition back_default_s :: real where
  "back_default_s = 1.70158"

definition easeInBack :: "real \<Rightarrow> real \<Rightarrow> real \<Rightarrow> real \<Rightarrow> real \<Rightarrow> real" where
  "easeInBack t b c d s = (let t = t / d in c * t * t * ((s + 1) * t - s) + b)"

definition easeOutBack :: "real \<Rightarrow> real \<Rightarrow> real \<Rightarrow> real \<Rightarrow> real \<Rightarrow> real" where
  "easeOutBack t b c d s = (let t = t / d - 1 in c * (t * t * ((s + 1) * t + s) + 1) + b)"

definition easeInOutBack_lower :: "real \<Rightarrow> real \<Rightarrow> real \<Rightarrow> real \<Rightarrow> real" where
  "easeInOutBack_lower t b c s =
     (let s = s * 1.525 in c / 2 * (t * t * ((s + 1) * t - s)) + b)"

definition easeInOutBack_upper :: "real \<Rightarrow> real \<Rightarrow> real \<Rightarrow> real \<Rightarrow> real" where
  "easeInOutBack_upper t b c s =
     (let t = t - 2; s = s * 1.525 in c / 2 * (t * t * ((s + 1) * t + s) + 2) + b)"

definition easeInOutBack :: "real \<Rightarrow> real \<Rightarrow> real \<Rightarrow> real \<Rightarrow> real \<Rightarrow> real" where
  "easeInOutBack t b c d s =
     (let t = t / (d / 2) in
      if t < 1 then easeInOutBack_lower t b c s else easeInOutBack_upper t b c s)"

subsection \<open>Bounce family\<close>

definition easeOutBounce :: "real \<Rightarrow> real \<Rightarrow> real \<Rightarrow> real \<Rightarrow> real" where
  "easeOutBounce t b c d =
     (let t = t / d in
      if t < 1 / 2.75 then c * (7.5625 * t * t) + b
      else if t < 2 / 2.75 then
        (let t = t - 1.5 / 2.75 in c * (7.5625 * t * t + 0.75) + b)
      else if t < 2.5 / 2.75 then
        (let t = t - 2.25 / 2.75 in c * (7.5625 * t * t + 0.9375) + b)
      else
        (let t = t - 2.625 / 2.75 in c * (7.5625 * t * t + 0.984375) + b))"

definition easeInBounce :: "real \<Rightarrow> real \<Rightarrow> real \<Rightarrow> real \<Rightarrow> real" where
  "easeInBounce t b c d = c - easeOutBounce (d - t) 0 c d + b"

definition easeInOutBounce_lower :: "real \<Rightarrow> real \<Rightarrow> real \<Rightarrow> real \<Rightarrow> real" where
  "easeInOutBounce_lower t b c d = easeInBounce (t * 2) 0 c d * 0.5 + b"

definition easeInOutBounce_upper :: "real \<Rightarrow> real \<Rightarrow> real \<Rightarrow> real \<Rightarrow> real" where
  "easeInOutBounce_upper t b c d = easeOutBounce (t * 2 - d) 0 c d * 0.5 + c * 0.5 + b"

definition easeInOutBounce :: "real \<Rightarrow> real \<Rightarrow> real \<Rightarrow> real \<Rightarrow> real" where
  "easeInOutBounce t b c d =
     (if t < d / 2 then easeInOutBounce_lower t b c d else easeInOutBounce_upper t b c d)"

section \<open>Object transforms (src/util/misc/objectTransforms.ts)\<close>

subsection \<open>Points and matrices\<close>

text \<open>
  Modelled from the spec: the types \<^verbatim>\<open>Point\<close> and \<^verbatim>\<open>TMat2D\<close> and the functions
  \<^verbatim>\<open>multiplyTransformMatrices\<close> and \<^verbatim>\<open>invertTransform\<close> are imported from files that are
  not among the sources. The spec gives a point as a coordinate pair \<open>(x, y)\<close> and a
  matrix as the six coefficients \<open>[a, b, c, d, e, f]\<close> of the affine map
  \<open>(x, y) \<mapsto> (a x + c y + e, b x + d y + f)\<close>; \<open>multiply\<close> is the composition of two
  such maps and \<open>invert\<close> the inverse map.
\<close>

type_synonym Point = "real \<times> real"

type_synonym TMat2D = "real \<times> real \<times> real \<times> real \<times> real \<times> real"




subsection \<open>Objects and the primitives they bring\<close>

text \<open>
  The object is typed \<^verbatim>\<open>any\<close> in the source. The functions read and write the nine
  fields below; the record is extensible, so an object may carry more (its size, its
  origin). The field \<^verbatim>\<open>top\<close> is named \<open>top_y\<close>, since \<open>top\<close> is a constant of the
  library.
\<close>

record fabricObject =
  scaleX :: real
  scaleY :: real
  skewX :: real
  skewY :: real
  angle :: real
  left :: real
  flipX :: bool
  flipY :: bool
  top_y :: real

text \<open>
  Modelled from the spec: the result type of \<^verbatim>\<open>qrDecompose\<close> is declared in
  \<^verbatim>\<open>./matrix\<close>, which is not among the sources. The spec lists the components
  \<open>translateX, translateY, scaleX, scaleY, skewX, skewY, angle, flipX, flipY\<close> and says
  of the flips "if any": the two flip components may be absent, which is \<open>None\<close>.
\<close>

record DecomposedTransform =
  translateX :: real
  translateY :: real
  dec_scaleX :: real
  dec_scaleY :: real
  dec_skewX :: real
  dec_skewY :: real
  dec_angle :: real
  dec_flipX :: "bool option"
  dec_flipY :: "bool option"

text \<open>
  The functions of \<^verbatim>\<open>./matrix\<close> that the spec describes by contract only, and the
  methods that the object itself supplies, are parameters of the model.
  \<open>set_scale\<close> stands for the call \<^verbatim>\<open>object.set({ scaleX, scaleY })\<close>.
\<close>

record 'a primitives =
  qrDecompose :: "TMat2D \<Rightarrow> DecomposedTransform"
  composeMatrix :: "DecomposedTransform \<Rightarrow> TMat2D"
  calcOwnMatrix :: "'a fabricObject_scheme \<Rightarrow> TMat2D"
  getCenterPoint :: "'a fabricObject_scheme \<Rightarrow> Point"
  set_scale :: "'a fabricObject_scheme \<Rightarrow> real \<Rightarrow> real \<Rightarrow> 'a fabricObject_scheme"
  setPositionByOrigin ::
    "'a fabricObject_scheme \<Rightarrow> Point \<Rightarrow> string \<Rightarrow> string \<Rightarrow> 'a fabricObject_scheme"
  rotate :: "'a fabricObject_scheme \<Rightarrow> real \<Rightarrow> 'a fabricObject_scheme"

subsection \<open>The functions of the module\<close>

text \<open>
  \<^verbatim>\<open>Object.assign(object, otherOptions)\<close>: \<^verbatim>\<open>otherOptions\<close> is what the decomposition
  holds besides \<^verbatim>\<open>translateX, translateY, scaleX, scaleY\<close>; a component that is absent
  leaves the object's field as it is.
\<close>

definition assign_otherOptions ::
  "'a fabricObject_scheme \<Rightarrow> DecomposedTransform \<Rightarrow> 'a fabricObject_scheme" where
  "assign_otherOptions object q =
     object\<lparr>skewX := dec_skewX q,
            skewY := dec_skewY q,
            angle := dec_angle q,
            flipX := (case dec_flipX q of None \<Rightarrow> flipX object | Some v \<Rightarrow> v),
            flipY := (case dec_flipY q of None \<Rightarrow> flipY object | Some v \<Rightarrow> v)\<rparr>"

definition applyTransformToObject ::
  "'a primitives \<Rightarrow> 'a fabricObject_scheme \<Rightarrow> TMat2D \<Rightarrow> 'a fabricObject_scheme" where
  "applyTransformToObject env object transform =
     (let q = qrDecompose env transform;
          center = (translateX q, translateY q);
          object = object\<lparr>flipX := False\<rparr>;
          object = object\<lparr>flipY := False\<rparr>;
          object = assign_otherOptions object q;
          object = set_scale env object (dec_scaleX q) (dec_scaleY q)
      in setPositionByOrigin env object center ''center'' ''center'')"



definition resetObjectTransform ::
  "'a primitives \<Rightarrow> 'a fabricObject_scheme \<Rightarrow> 'a fabricObject_scheme" where
  "resetObjectTransform env target =
     (let target = target\<lparr>scaleX := 1\<rparr>;
          target = target\<lparr>scaleY := 1\<rparr>;
          target = target\<lparr>skewX := 0\<rparr>;
          target = target\<lparr>skewY := 0\<rparr>;
          target = target\<lparr>flipX := False\<rparr>;
          target = target\<lparr>flipY := False\<rparr>
      in rotate env target 0)"

text \<open>The object literal that \<^verbatim>\<open>saveObjectTransform\<close> builds, as a value.\<close>

definition saveObjectTransform :: "'a fabricObject_scheme \<Rightarrow> fabricObject" where
  "saveObjectTransform target =
     \<lparr>scaleX = scaleX target,
      scaleY = scaleY target,
      skewX = skewX target,
      skewY = skewY target,
      angle = angle target,
      left = left target,
      flipX = flipX target,
      flipY = flipY target,
      top_y = top_y target\<rparr>"

subsection \<open>Objects in a store\<close>

text \<open>
  Whether the record returned by \<^verbatim>\<open>saveObjectTransform\<close> shares anything with its
  argument is a question about references. A store is the list of the objects allocated
  so far, a reference is an index into it, an object literal allocates at the end, and
  an assignment to a field of the object at \<open>r\<close> replaces the entry at \<open>r\<close>. Reading a
  field of a reference that holds no object is a \<^verbatim>\<open>TypeError\<close>.
\<close>

type_synonym store = "fabricObject list"

type_synonym ref = nat

datatype error = TypeError

definition save_call :: "store \<Rightarrow> ref \<Rightarrow> error + (store \<times> ref)" where
  "save_call h target =
     (if target < length h
      then Inr (h @ [saveObjectTransform (h ! target)], length h)
      else Inl TypeError)"

definition mutate :: "store \<Rightarrow> ref \<Rightarrow> fabricObject \<Rightarrow> store" where
  "mutate h r v = h[r := v]"

subsection \<open>What is assumed of the primitives\<close>

text \<open>
  The bodies of the primitives are not among the sources; the spec describes each by
  its contract. Each contract is a predicate on the primitives, and a theorem names the
  ones it relies on.
\<close>

text \<open>
  Modelled from the spec: the method \<^verbatim>\<open>set\<close> of the object, "a method to set multiple
  fields atomically"; \<^verbatim>\<open>set({ scaleX, scaleY })\<close> "sets \<open>scaleX/scaleY\<close> explicitly".
\<close>

definition set_scale_assigns :: "'a primitives \<Rightarrow> bool" where
  "set_scale_assigns env \<longleftrightarrow>
     (\<forall>object sx sy. set_scale env object sx sy = object\<lparr>scaleX := sx, scaleY := sy\<rparr>)"

text \<open>
  Modelled from the spec: the method \<^verbatim>\<open>setPositionByOrigin\<close> of the object, "a method to
  reposition by named anchor"; with the anchor \<^verbatim>\<open>'center', 'center'\<close> the given point
  "becomes the object's center". It is a repositioning: the other transform fields stay.
\<close>

definition repositions_center :: "'a primitives \<Rightarrow> bool" where
  "repositions_center env \<longleftrightarrow>
     (\<forall>object p.
        getCenterPoint env (setPositionByOrigin env object p ''center'' ''center'') = p \<and>
        scaleX (setPositionByOrigin env object p ''center'' ''center'') = scaleX object \<and>
        scaleY (setPositionByOrigin env object p ''center'' ''center'') = scaleY object \<and>
        skewX (setPositionByOrigin env object p ''center'' ''center'') = skewX object \<and>
        skewY (setPositionByOrigin env object p ''center'' ''center'') = skewY object \<and>
        angle (setPositionByOrigin env object p ''center'' ''center'') = angle object \<and>
        flipX (setPositionByOrigin env object p ''center'' ''center'') = flipX object \<and>
        flipY (setPositionByOrigin env object p ''center'' ''center'') = flipY object)"





text \<open>
  Nothing is assumed of the method \<^verbatim>\<open>rotate\<close> of the object: the spec calls it "a
  rotation-setting method" and says nothing of what a rotation does to the position.
\<close>

subsection \<open>A concrete set of primitives\<close>

text \<open>
  One instance that meets every contract above, for use at concrete inputs: every
  object is a box of 100 by 50 positioned by its top left corner, so that its centre
  is \<open>(left + 50, top + 25)\<close> and the anchor \<^verbatim>\<open>'center'\<close> is half the size away from
  the corner; a matrix decomposes into its own coefficients (the two
  scales on the diagonal, the two shears off it, no rotation, no flip).
\<close>

definition box_primitives :: "unit primitives" where
  "box_primitives =
     \<lparr>qrDecompose = (\<lambda>(a, b, c, d, e, f).
        \<lparr>translateX = e, translateY = f, dec_scaleX = a, dec_scaleY = d,
         dec_skewX = c, dec_skewY = b, dec_angle = 0,
         dec_flipX = None, dec_flipY = None\<rparr>),
      composeMatrix = (\<lambda>q.
        (dec_scaleX q, dec_skewY q, dec_skewX q, dec_scaleY q, translateX q, translateY q)),
      calcOwnMatrix = (\<lambda>object.
        (scaleX object, skewY object, skewX object, scaleY object,
         left object + 50, top_y object + 25)),
      getCenterPoint = (\<lambda>object. (left object + 50, top_y object + 25)),
      set_scale = (\<lambda>object sx sy. object\<lparr>scaleX := sx, scaleY := sy\<rparr>),
      setPositionByOrigin = (\<lambda>object p originX originY.
        object\<lparr>left := fst p - (if originX = ''center'' then 50 else 0),
               top_y := snd p - (if originY = ''center'' then 25 else 0)\<rparr>),
      rotate = (\<lambda>object a. object\<lparr>angle := a\<rparr>)\<rparr>"

definition box_object :: fabricObject where
  "box_object =
     \<lparr>scaleX = 3, scaleY = 2, skewX = 1, skewY = 0, angle = 0, left = 5,
      flipX = True, flipY = False, top_y = 7\<rparr>"

subsection \<open>Two other objects\<close>

text \<open>
  An object whose \<^verbatim>\<open>set\<close> keeps a scale non-negative: a negative \<open>scaleX\<close> or \<open>scaleY\<close>
  is stored as its absolute value, and the flip flag of that axis is toggled.
\<close>

definition flipping_set :: "fabricObject \<Rightarrow> real \<Rightarrow> real \<Rightarrow> fabricObject" where
  "flipping_set object sx sy =
     (let object =
            (if sx < 0 then object\<lparr>flipX := \<not> flipX object, scaleX := - sx\<rparr>
             else object\<lparr>scaleX := sx\<rparr>)
      in if sy < 0 then object\<lparr>flipY := \<not> flipY object, scaleY := - sy\<rparr>
         else object\<lparr>scaleY := sy\<rparr>)"

definition flipping_primitives :: "unit primitives" where
  "flipping_primitives = box_primitives\<lparr>set_scale := flipping_set\<rparr>"

text \<open>
  An object whose \<^verbatim>\<open>rotate\<close> turns it about its centre. The box is positioned by its
  top left corner and turned about that corner by \<open>angle\<close> degrees, so its centre is the
  corner plus the half diagonal \<open>(50, 25)\<close> turned by \<open>angle\<close>; \<^verbatim>\<open>rotate(a)\<close> sets the
  angle and moves the corner so that the centre stays where it was.
\<close>

definition half_diagonal :: "real \<Rightarrow> Point" where
  "half_diagonal a =
     (50 * cos (a * pi / 180) - 25 * sin (a * pi / 180),
      50 * sin (a * pi / 180) + 25 * cos (a * pi / 180))"

definition pivot_rotate :: "fabricObject \<Rightarrow> real \<Rightarrow> fabricObject" where
  "pivot_rotate object a =
     (let cx = left object + fst (half_diagonal (angle object));
          cy = top_y object + snd (half_diagonal (angle object))
      in object\<lparr>angle := a,
                left := cx - fst (half_diagonal a),
                top_y := cy - snd (half_diagonal a)\<rparr>)"

definition pivot_primitives :: "unit primitives" where
  "pivot_primitives = box_primitives\<lparr>rotate := pivot_rotate\<rparr>"

section \<open>Properties of the easing functions\<close>

subsection \<open>Start and end values\<close>

text \<open>
  Every curve of the catalog but three starts at \<open>b\<close> and ends at \<open>b + c\<close>. The in-out
  bounce chooses its half by \<^verbatim>\<open>t < d / 2\<close> on the time as given, so its two values need
  a positive duration.
\<close>

lemma endpoints_polynomial:
  assumes "d \<noteq> 0"
  shows "easeInQuad 0 b c d = b \<and> easeInQuad d b c d = b + c"
    and "easeOutQuad 0 b c d = b \<and> easeOutQuad d b c d = b + c"
    and "easeInOutQuad 0 b c d = b \<and> easeInOutQuad d b c d = b + c"
    and "easeInCubic 0 b c d = b \<and> easeInCubic d b c d = b + c"
    and "easeInOutCubic 0 b c d = b \<and> easeInOutCubic d b c d = b + c"
    and "easeInQuart 0 b c d = b \<and> easeInQuart d b c d = b + c"
    and "easeOutQuart 0 b c d = b \<and> easeOutQuart d b c d = b + c"
    and "easeInOutQuart 0 b c d = b \<and> easeInOutQuart d b c d = b + c"
    and "easeInQuint 0 b c d = b \<and> easeInQuint d b c d = b + c"
    and "easeInOutQuint 0 b c d = b \<and> easeInOutQuint d b c d = b + c"
  using assms
  by (simp_all add: easeInQuad_def easeOutQuad_def easeInOutQuad_def easeInOutQuad_lower_def
        easeInOutQuad_upper_def easeInCubic_def easeInOutCubic_def easeInOutCubic_lower_def
        easeInOutCubic_upper_def easeInQuart_def easeOutQuart_def easeInOutQuart_def
        easeInOutQuart_lower_def easeInOutQuart_upper_def easeInQuint_def easeInOutQuint_def
        easeInOutQuint_lower_def easeInOutQuint_upper_def)

lemma endpoints_sine:
  assumes "d \<noteq> 0"
  shows "easeInSine 0 b c d = b \<and> easeInSine d b c d = b + c"
    and "easeOutSine 0 b c d = b \<and> easeOutSine d b c d = b + c"
    and "easeInOutSine 0 b c d = b \<and> easeInOutSine d b c d = b + c"
  using assms by (simp_all add: easeInSine_def easeOutSine_def easeInOutSine_def halfPI_def)

lemma endpoints_expo:
  assumes "d \<noteq> 0"
  shows "easeInExpo 0 b c d = b \<and> easeInExpo d b c d = b + c"
    and "easeOutExpo d b c d = b + c"
    and "easeInOutExpo 0 b c d = b \<and> easeInOutExpo d b c d = b + c"
  using assms by (simp_all add: easeInExpo_def easeOutExpo_def easeInOutExpo_def)

lemma endpoints_circ:
  assumes "d \<noteq> 0"
  shows "easeInCirc 0 b c d = b \<and> easeInCirc d b c d = b + c"
    and "easeOutCirc 0 b c d = b \<and> easeOutCirc d b c d = b + c"
    and "easeInOutCirc 0 b c d = b \<and> easeInOutCirc d b c d = b + c"
  using assms
  by (simp_all add: easeInCirc_def easeOutCirc_def easeInOutCirc_def easeInOutCirc_lower_def
        easeInOutCirc_upper_def)

lemma endpoints_inout_elastic:
  assumes "d \<noteq> 0"
  shows "easeInOutElastic 0 b c d = b \<and> easeInOutElastic d b c d = b + c"
  using assms by (simp add: easeInOutElastic_def)

lemma endpoints_back:
  assumes "d \<noteq> 0"
  shows "easeInBack 0 b c d s = b \<and> easeInBack d b c d s = b + c"
    and "easeOutBack 0 b c d s = b \<and> easeOutBack d b c d s = b + c"
    and "easeInOutBack 0 b c d s = b \<and> easeInOutBack d b c d s = b + c"
  using assms
  by (simp_all add: easeInBack_def easeOutBack_def easeInOutBack_def easeInOutBack_lower_def
        easeInOutBack_upper_def Let_def algebra_simps)

lemma endpoints_bounce:
  assumes "d \<noteq> 0"
  shows "easeOutBounce 0 b c d = b \<and> easeOutBounce d b c d = b + c"
    and "easeInBounce 0 b c d = b \<and> easeInBounce d b c d = b + c"
    and "0 < d \<Longrightarrow> easeInOutBounce 0 b c d = b \<and> easeInOutBounce d b c d = b + c"
  using assms
  by (simp_all add: easeOutBounce_def easeInBounce_def easeInOutBounce_def
        easeInOutBounce_lower_def easeInOutBounce_upper_def)

lemma easeInOutBounce_negative_duration: "easeInOutBounce 0 0 1 (- 1) = 4.28125"
  by (simp add: easeOutBounce_def easeInBounce_def easeInOutBounce_def
        easeInOutBounce_lower_def easeInOutBounce_upper_def)

text \<open>
  The three others. With \<open>t / (d - 1)\<close> for \<open>t / d - 1\<close>, the cubic and the quintic
  ease-out start where they should end; with the sign outside the bracket, the
  exponential ease-out starts at \<open>b - 2 c\<close>.
\<close>

lemma easeOutCubic_start: "d \<noteq> 1 \<Longrightarrow> easeOutCubic 0 b c d = b + c"
  by (simp add: easeOutCubic_def)

lemma easeOutQuint_start: "d \<noteq> 1 \<Longrightarrow> easeOutQuint 0 b c d = b + c"
  by (simp add: easeOutQuint_def)

lemma easeOutExpo_start: "d \<noteq> 0 \<Longrightarrow> easeOutExpo 0 b c d = b - 2 * c"
  by (simp add: easeOutExpo_def)

text \<open>
  C1. The claim: for every easing function of the catalog and all \<open>b\<close>, \<open>c\<close> and
  \<open>d \<noteq> 0\<close>, the value at time \<open>0\<close> is \<open>b\<close> and the value at time \<open>d\<close> is \<open>b + c\<close>.
  At \<open>t = 0\<close>, \<open>b = 0\<close>, \<open>c = 1\<close>, \<open>d = 2\<close> the claim asks for \<open>0\<close>; \<^verbatim>\<open>easeOutCubic\<close> and
  \<^verbatim>\<open>easeOutQuint\<close> return \<open>1\<close> and \<^verbatim>\<open>easeOutExpo\<close> returns \<open>- 2\<close>.
\<close>

theorem easeOut_start_values:
  "easeOutCubic 0 0 1 2 = 1 \<and> easeOutQuint 0 0 1 2 = 1 \<and> easeOutExpo 0 0 1 2 = - 2"
  by (simp add: easeOutCubic_def easeOutQuint_def easeOutExpo_def)

subsection \<open>The midpoint of the in-out curves\<close>

text \<open>
  At the midpoint the normalised time is \<open>1\<close>. But for the exponential curve, the two
  closed forms of every in-out curve agree there. The sinusoidal in-out curve is a
  single closed form. The elastic curve is called with amplitude \<open>a = c\<close>, for which
  \<open>normalize_ease\<close> gives the phase shift \<open>p / 4\<close> in each of its three cases.
\<close>

lemma midpoint_polynomial:
  "easeInOutQuad_lower 1 b c = easeInOutQuad_upper 1 b c"
  "easeInOutCubic_lower 1 b c = easeInOutCubic_upper 1 b c"
  "easeInOutQuart_lower 1 b c = easeInOutQuart_upper 1 b c"
  "easeInOutQuint_lower 1 b c = easeInOutQuint_upper 1 b c"
  by (simp_all add: easeInOutQuad_lower_def easeInOutQuad_upper_def
        easeInOutCubic_lower_def easeInOutCubic_upper_def
        easeInOutQuart_lower_def easeInOutQuart_upper_def
        easeInOutQuint_lower_def easeInOutQuint_upper_def)

lemma midpoint_circ: "easeInOutCirc_lower 1 b c = easeInOutCirc_upper 1 b c"
  by (simp add: easeInOutCirc_lower_def easeInOutCirc_upper_def)

lemma midpoint_back: "easeInOutBack_lower 1 b c s = easeInOutBack_upper 1 b c s"
  by (simp add: easeInOutBack_lower_def easeInOutBack_upper_def Let_def algebra_simps)

lemma midpoint_bounce:
  "d \<noteq> 0 \<Longrightarrow> easeInOutBounce_lower (d / 2) b c d = easeInOutBounce_upper (d / 2) b c d"
  by (simp add: easeInOutBounce_lower_def easeInOutBounce_upper_def easeInBounce_def
        easeOutBounce_def)

lemma normalize_ease_same:
  "norm_a (normalize_ease c c p s) = c \<and> norm_c (normalize_ease c c p s) = c \<and>
   norm_p (normalize_ease c c p s) = p \<and> norm_s (normalize_ease c c p s) = p / 4"
  by (simp add: normalize_ease_def twoMathPi_def)

lemma midpoint_elastic:
  assumes "p \<noteq> 0"
  shows "easeInOutElastic_lower (normalize_ease c c p s) 1 b d =
         easeInOutElastic_upper (normalize_ease c c p s) 1 b d"
  using assms
  by (simp add: easeInOutElastic_lower_def easeInOutElastic_upper_def elastic_def
        normalize_ease_same twoMathPi_def)

lemma midpoint_expo:
  "easeInOutExpo_lower 1 b c = b + c / 2 \<and> easeInOutExpo_upper 1 b c = b - 3 * c / 2"
  by (simp add: easeInOutExpo_lower_def easeInOutExpo_upper_def)

text \<open>
  The same on the function itself, for a positive duration: it tends to \<open>b + c / 2\<close> as
  \<open>t\<close> approaches \<open>d / 2\<close> from the left, and its value at \<open>d / 2\<close> is \<open>b - 3 c / 2\<close>.
\<close>

lemma easeInOutExpo_left_limit:
  assumes "0 < d"
  shows "((\<lambda>t. easeInOutExpo t b c d) \<longlongrightarrow> b + c / 2) (at_left (d / 2))"
proof -
  have v: "c / 2 * 2 powr (10 * ((d / 2) / (d / 2) - 1)) + b = b + c / 2"
    using assms by simp
  have lim: "((\<lambda>t. c / 2 * 2 powr (10 * (t / (d / 2) - 1)) + b) \<longlongrightarrow> b + c / 2)
      (at_left (d / 2))"
    unfolding v [symmetric] using assms by (intro tendsto_intros) simp_all
  have "eventually (\<lambda>t. c / 2 * 2 powr (10 * (t / (d / 2) - 1)) + b = easeInOutExpo t b c d)
      (at_left (d / 2))"
    unfolding eventually_at_left_field
  proof (intro exI conjI allI impI)
    show "0 < d / 2"
      using assms by simp
    fix t assume "0 < t" "t < d / 2"
    then show "c / 2 * 2 powr (10 * (t / (d / 2) - 1)) + b = easeInOutExpo t b c d"
      using assms by (simp add: easeInOutExpo_def easeInOutExpo_lower_def Let_def field_simps)
  qed
  then show ?thesis
    by (rule Lim_transform_eventually [OF lim])
qed

lemma easeInOutExpo_midpoint_value:
  assumes "0 < d"
  shows "easeInOutExpo (d / 2) b c d = b - 3 * c / 2"
  using assms by (simp add: easeInOutExpo_def easeInOutExpo_upper_def)

text \<open>
  C2. The claim: every in-out variant is continuous at \<open>t = d / 2\<close>, the closed form of
  the first branch taking there the value that the second branch returns. At \<open>b = 0\<close>,
  \<open>c = 2\<close>, \<open>d = 2\<close> the midpoint is \<open>t = 1\<close>: the first closed form of \<^verbatim>\<open>easeInOutExpo\<close>
  gives \<open>1\<close> there, the second gives \<open>- 3\<close>, and \<open>- 3\<close> is what the function returns.
\<close>

theorem easeInOutExpo_midpoint_gap:
  "easeInOutExpo_lower 1 0 2 = 1 \<and> easeInOutExpo_upper 1 0 2 = - 3 \<and>
   easeInOutExpo 1 0 2 2 = - 3"
  by (simp add: easeInOutExpo_def easeInOutExpo_lower_def easeInOutExpo_upper_def)

subsection \<open>The phase shift of the elastic curves\<close>

text \<open>
  C5, as amended. When \<open>a < \<bar>c\<bar>\<close>, \<open>normalize_ease\<close> returns the amplitude \<open>c\<close> (the change
  itself, with its sign) and the phase shift \<open>p / 4\<close>; otherwise it returns the phase
  shift \<open>p / (2 \<pi>) \<cdot> asin (c / a)\<close>, except that for \<open>a = 0\<close> and \<open>c = 0\<close> it uses
  \<open>asin 1\<close>.
\<close>

theorem normalize_ease_cases:
  "(a < \<bar>c\<bar> \<longrightarrow>
      norm_a (normalize_ease a c p s) = c \<and> norm_s (normalize_ease a c p s) = p / 4) \<and>
   (\<not> a < \<bar>c\<bar> \<and> \<not> (a = 0 \<and> c = 0) \<longrightarrow>
      norm_s (normalize_ease a c p s) = p / (2 * pi) * arcsin (c / a)) \<and>
   (a = 0 \<and> c = 0 \<longrightarrow>
      norm_s (normalize_ease a c p s) = p / (2 * pi) * arcsin 1)"
  by (auto simp add: normalize_ease_def twoMathPi_def)

theorem normalize_ease_cases_witness:
  "((0::real) < \<bar>- 1\<bar> \<and> norm_a (normalize_ease 0 (- 1) 8 0) = - 1 \<and>
      norm_s (normalize_ease 0 (- 1) 8 0) = 2) \<and>
   (\<not> (2::real) < \<bar>1\<bar> \<and> \<not> ((2::real) = 0 \<and> (1::real) = 0) \<and>
      norm_s (normalize_ease 2 1 8 0) = 8 / (2 * pi) * arcsin (1 / 2)) \<and>
   norm_s (normalize_ease 0 0 8 0) = 8 / (2 * pi) * arcsin 1"
  using normalize_ease_cases [of 0 "- 1" 8 0] normalize_ease_cases [of 2 1 8 0]
    normalize_ease_cases [of 0 0 8 0]
  by simp

text \<open>
  The claim as it was stated has the amplitude clamped to \<open>\<bar>c\<bar>\<close>. For \<open>a = 0\<close> and
  \<open>c = - 1\<close> the amplitude returned is \<open>- 1\<close>.
\<close>

theorem normalize_ease_amplitude_counterexample:
  "(0::real) < \<bar>- 1\<bar> \<and> norm_a (normalize_ease 0 (- 1) 1 0) \<noteq> \<bar>- 1\<bar>"
  by (simp add: normalize_ease_def)

subsection \<open>The segments of the bounce\<close>

text \<open>
  \<^verbatim>\<open>easeOutBounce\<close> depends on \<open>t\<close> and \<open>d\<close> through \<open>t / d\<close> only, and on each of its
  four segments it is a parabola in \<open>t / d\<close>. The thresholds and the vertices of the
  source are the fractions below.
\<close>

lemma bounce_thresholds:
  "(1::real) / 2.75 = 4 / 11" "(1.5::real) / 2.75 = 6 / 11" "(2::real) / 2.75 = 8 / 11"
  "(2.25::real) / 2.75 = 9 / 11" "(2.5::real) / 2.75 = 10 / 11"
  "(2.625::real) / 2.75 = 21 / 22"
  by simp_all

lemma bounce_normalised: "d \<noteq> 0 \<Longrightarrow> easeOutBounce t b c d = easeOutBounce (t / d) b c 1"
  by (simp add: easeOutBounce_def)

lemma bounce_segment1:
  "u < 4 / 11 \<Longrightarrow> easeOutBounce u b c 1 = c * (7.5625 * u * u + 0) + b"
  by (simp add: easeOutBounce_def Let_def)

lemma bounce_segment2:
  "4 / 11 \<le> u \<Longrightarrow> u < 8 / 11 \<Longrightarrow>
   easeOutBounce u b c 1 = c * (7.5625 * (u - 6 / 11) * (u - 6 / 11) + 0.75) + b"
  by (simp add: easeOutBounce_def Let_def)

lemma bounce_segment3:
  "8 / 11 \<le> u \<Longrightarrow> u < 10 / 11 \<Longrightarrow>
   easeOutBounce u b c 1 = c * (7.5625 * (u - 9 / 11) * (u - 9 / 11) + 0.9375) + b"
  by (simp add: easeOutBounce_def Let_def)

lemma bounce_segment4:
  "10 / 11 \<le> u \<Longrightarrow>
   easeOutBounce u b c 1 = c * (7.5625 * (u - 21 / 22) * (u - 21 / 22) + 0.984375) + b"
  by (simp add: easeOutBounce_def Let_def)

text \<open>A parabola with its vertex at \<open>0\<close> rises to the right of it and falls to the left.\<close>

lemma parabola_rising:
  fixes x y :: real
  assumes "0 \<le> x" "x \<le> y" "0 \<le> c"
  shows "c * (7.5625 * x * x + m) + b \<le> c * (7.5625 * y * y + m) + b"
proof -
  have "x * x \<le> y * y"
    using assms(1,2) by (intro mult_mono) auto
  then have "7.5625 * x * x + m \<le> 7.5625 * y * y + m"
    by simp
  then show ?thesis
    using assms(3) by (simp add: mult_left_mono)
qed

lemma parabola_falling:
  fixes x y :: real
  assumes "x \<le> y" "y \<le> 0" "0 \<le> c"
  shows "c * (7.5625 * y * y + m) + b \<le> c * (7.5625 * x * x + m) + b"
proof -
  have "(- y) * (- y) \<le> (- x) * (- x)"
    using assms(1,2) by (intro mult_mono) auto
  then have "7.5625 * y * y + m \<le> 7.5625 * x * x + m"
    by simp
  then show ?thesis
    using assms(3) by (simp add: mult_left_mono)
qed

lemma bounce_rise1:
  assumes "0 \<le> c" "0 \<le> u" "u \<le> v" "v < 4 / 11"
  shows "easeOutBounce u b c 1 \<le> easeOutBounce v b c 1"
proof -
  from assms have "u < 4 / 11" by linarith
  with assms show ?thesis
    by (simp only: bounce_segment1 parabola_rising)
qed

lemma bounce_fall2:
  assumes "0 \<le> c" "4 / 11 \<le> u" "u \<le> v" "v \<le> 6 / 11"
  shows "easeOutBounce v b c 1 \<le> easeOutBounce u b c 1"
proof -
  from assms have *: "u < 8 / 11" "4 / 11 \<le> v" "v < 8 / 11"
    and **: "u - 6 / 11 \<le> v - 6 / 11" "v - 6 / 11 \<le> 0" by linarith+
  show ?thesis
    unfolding bounce_segment2 [OF assms(2) *(1)] bounce_segment2 [OF *(2,3)]
    by (rule parabola_falling [OF ** assms(1)])
qed

lemma bounce_rise2:
  assumes "0 \<le> c" "6 / 11 \<le> u" "u \<le> v" "v < 8 / 11"
  shows "easeOutBounce u b c 1 \<le> easeOutBounce v b c 1"
proof -
  from assms have *: "4 / 11 \<le> u" "u < 8 / 11" "4 / 11 \<le> v"
    and **: "0 \<le> u - 6 / 11" "u - 6 / 11 \<le> v - 6 / 11" by linarith+
  show ?thesis
    unfolding bounce_segment2 [OF *(1,2)] bounce_segment2 [OF *(3) assms(4)]
    by (rule parabola_rising [OF ** assms(1)])
qed

lemma bounce_fall3:
  assumes "0 \<le> c" "8 / 11 \<le> u" "u \<le> v" "v \<le> 9 / 11"
  shows "easeOutBounce v b c 1 \<le> easeOutBounce u b c 1"
proof -
  from assms have *: "u < 10 / 11" "8 / 11 \<le> v" "v < 10 / 11"
    and **: "u - 9 / 11 \<le> v - 9 / 11" "v - 9 / 11 \<le> 0" by linarith+
  show ?thesis
    unfolding bounce_segment3 [OF assms(2) *(1)] bounce_segment3 [OF *(2,3)]
    by (rule parabola_falling [OF ** assms(1)])
qed

lemma bounce_rise3:
  assumes "0 \<le> c" "9 / 11 \<le> u" "u \<le> v" "v < 10 / 11"
  shows "easeOutBounce u b c 1 \<le> easeOutBounce v b c 1"
proof -
  from assms have *: "8 / 11 \<le> u" "u < 10 / 11" "8 / 11 \<le> v"
    and **: "0 \<le> u - 9 / 11" "u - 9 / 11 \<le> v - 9 / 11" by linarith+
  show ?thesis
    unfolding bounce_segment3 [OF *(1,2)] bounce_segment3 [OF *(3) assms(4)]
    by (rule parabola_rising [OF ** assms(1)])
qed

lemma bounce_fall4:
  assumes "0 \<le> c" "10 / 11 \<le> u" "u \<le> v" "v \<le> 21 / 22"
  shows "easeOutBounce v b c 1 \<le> easeOutBounce u b c 1"
proof -
  from assms have *: "10 / 11 \<le> v"
    and **: "u - 21 / 22 \<le> v - 21 / 22" "v - 21 / 22 \<le> 0" by linarith+
  show ?thesis
    unfolding bounce_segment4 [OF assms(2)] bounce_segment4 [OF *]
    by (rule parabola_falling [OF ** assms(1)])
qed

lemma bounce_rise4:
  assumes "0 \<le> c" "21 / 22 \<le> u" "u \<le> v"
  shows "easeOutBounce u b c 1 \<le> easeOutBounce v b c 1"
proof -
  from assms have *: "10 / 11 \<le> u" "10 / 11 \<le> v"
    and **: "0 \<le> u - 21 / 22" "u - 21 / 22 \<le> v - 21 / 22" by linarith+
  show ?thesis
    unfolding bounce_segment4 [OF *(1)] bounce_segment4 [OF *(2)]
    by (rule parabola_rising [OF ** assms(1)])
qed

lemma bounce_end: "d \<noteq> 0 \<Longrightarrow> easeOutBounce d b c d = c + b"
  by (simp add: easeOutBounce_def)

text \<open>
  C6, as amended. For \<open>d > 0\<close> and \<open>c > 0\<close>, \<^verbatim>\<open>easeOutBounce\<close> is non-decreasing in \<open>t\<close> on
  its first segment (\<open>t / d\<close> in \<open>[0, 1/2.75)\<close>); on each of the three later segments it is
  non-increasing up to the vertex of the segment (\<open>t / d = 1.5/2.75\<close>, \<open>2.25/2.75\<close>,
  \<open>2.625/2.75\<close>) and non-decreasing from the vertex on; and
  \<open>easeOutBounce d b c d = c + b\<close>.
\<close>

theorem easeOutBounce_segments:
  assumes "0 < d" and "0 < c"
  shows
   "mono_on {t. 0 \<le> t / d \<and> t / d < 1 / 2.75} (\<lambda>t. easeOutBounce t b c d) \<and>
    antimono_on {t. 1 / 2.75 \<le> t / d \<and> t / d \<le> 1.5 / 2.75} (\<lambda>t. easeOutBounce t b c d) \<and>
    mono_on {t. 1.5 / 2.75 \<le> t / d \<and> t / d < 2 / 2.75} (\<lambda>t. easeOutBounce t b c d) \<and>
    antimono_on {t. 2 / 2.75 \<le> t / d \<and> t / d \<le> 2.25 / 2.75} (\<lambda>t. easeOutBounce t b c d) \<and>
    mono_on {t. 2.25 / 2.75 \<le> t / d \<and> t / d < 2.5 / 2.75} (\<lambda>t. easeOutBounce t b c d) \<and>
    antimono_on {t. 2.5 / 2.75 \<le> t / d \<and> t / d \<le> 2.625 / 2.75}
      (\<lambda>t. easeOutBounce t b c d) \<and>
    mono_on {t. 2.625 / 2.75 \<le> t / d \<and> t / d \<le> 1} (\<lambda>t. easeOutBounce t b c d) \<and>
    easeOutBounce d b c d = c + b"
proof -
  have c: "0 \<le> c"
    using assms(2) by simp
  have div: "r / d \<le> s / d" if "r \<le> s" for r s
    using that assms(1) by (simp add: divide_right_mono)
  have d: "d \<noteq> 0"
    using assms(1) by simp
  note unfold = mem_Collect_eq bounce_normalised [OF d, of _ b c]
  have s1: "mono_on {t. 0 \<le> t / d \<and> t / d < 4 / 11} (\<lambda>t. easeOutBounce t b c d)"
    by (rule mono_onI) (simp only: unfold bounce_rise1 [OF c] div)
  have s2a: "antimono_on {t. 4 / 11 \<le> t / d \<and> t / d \<le> 6 / 11} (\<lambda>t. easeOutBounce t b c d)"
    by (rule monotone_onI) (simp only: unfold bounce_fall2 [OF c] div)
  have s2b: "mono_on {t. 6 / 11 \<le> t / d \<and> t / d < 8 / 11} (\<lambda>t. easeOutBounce t b c d)"
    by (rule mono_onI) (simp only: unfold bounce_rise2 [OF c] div)
  have s3a: "antimono_on {t. 8 / 11 \<le> t / d \<and> t / d \<le> 9 / 11} (\<lambda>t. easeOutBounce t b c d)"
    by (rule monotone_onI) (simp only: unfold bounce_fall3 [OF c] div)
  have s3b: "mono_on {t. 9 / 11 \<le> t / d \<and> t / d < 10 / 11} (\<lambda>t. easeOutBounce t b c d)"
    by (rule mono_onI) (simp only: unfold bounce_rise3 [OF c] div)
  have s4a: "antimono_on {t. 10 / 11 \<le> t / d \<and> t / d \<le> 21 / 22} (\<lambda>t. easeOutBounce t b c d)"
    by (rule monotone_onI) (simp only: unfold bounce_fall4 [OF c] div)
  have s4b: "mono_on {t. 21 / 22 \<le> t / d \<and> t / d \<le> 1} (\<lambda>t. easeOutBounce t b c d)"
    by (rule mono_onI) (simp only: unfold bounce_rise4 [OF c] div)
  have e: "easeOutBounce d b c d = c + b"
    using assms(1) by (simp add: bounce_end)
  from s1 s2a s2b s3a s3b s4a s4b e show ?thesis
    unfolding bounce_thresholds by blast
qed

theorem easeOutBounce_segments_witness:
  "(0::real) < 11 \<and> (0::real) < 1 \<and>
   easeOutBounce 2 0 1 11 = 1 / 4 \<and> easeOutBounce 4 0 1 11 = 1 \<and>
   easeOutBounce 6 0 1 11 = 3 / 4 \<and> easeOutBounce 8 0 1 11 = 1 \<and>
   easeOutBounce 9 0 1 11 = 15 / 16 \<and> easeOutBounce 10 0 1 11 = 1 \<and>
   easeOutBounce 11 0 1 11 = 1 + 0"
  using easeOutBounce_segments [of 11 1 0]
  by (simp add: easeOutBounce_def)

text \<open>
  The claim as it was stated has the function non-decreasing on each of the four
  segments. For \<open>b = 0\<close>, \<open>c = 1\<close>, \<open>d = 11\<close> the times \<open>4\<close> and \<open>6\<close> lie in the second
  segment, and the value falls from \<open>1\<close> to \<open>3/4\<close> between them.
\<close>

theorem easeOutBounce_monotone_counterexample:
  "(1::real) / 2.75 \<le> 4 / 11 \<and> (4::real) \<le> 6 \<and> (6::real) / 11 < 2 / 2.75 \<and>
   \<not> easeOutBounce 4 0 1 11 \<le> easeOutBounce 6 0 1 11"
  by (simp add: easeOutBounce_def)

subsection \<open>The endpoint checks of the exponential and elastic curves\<close>

text \<open>
  C7, as amended. For all \<open>b\<close>, \<open>c\<close>, \<open>d\<close>: \<^verbatim>\<open>easeInExpo\<close> returns \<open>b\<close> at \<open>t = 0\<close>,
  \<^verbatim>\<open>easeOutExpo\<close> returns \<open>b + c\<close> at \<open>t = d\<close>, and \<^verbatim>\<open>easeInOutExpo\<close> returns \<open>b\<close> at
  \<open>t = 0\<close> and, when \<open>d \<noteq> 0\<close>, \<open>b + c\<close> at \<open>t = d\<close>. The checks are on \<open>t\<close> before any
  division, so the first three hold for \<open>d = 0\<close> as well.
\<close>

theorem expo_endpoint_checks:
  "easeInExpo 0 b c d = b \<and> easeOutExpo d b c d = b + c \<and> easeInOutExpo 0 b c d = b \<and>
   (d \<noteq> 0 \<longrightarrow> easeInOutExpo d b c d = b + c)"
  by (simp add: easeInExpo_def easeOutExpo_def easeInOutExpo_def)

theorem expo_endpoint_checks_witness:
  "(2::real) \<noteq> 0 \<and> easeInExpo 0 5 3 2 = 5 \<and> easeOutExpo 2 5 3 2 = 8 \<and>
   easeInOutExpo 0 5 3 2 = 5 \<and> easeInOutExpo 2 5 3 2 = 8"
  using expo_endpoint_checks [of 5 3 2] by simp

text \<open>
  The claim as it was stated has \<^verbatim>\<open>easeInOutExpo\<close> return \<open>b + c\<close> at \<open>t = d\<close> for every
  \<open>d\<close>. For \<open>d = 0\<close> the time \<open>t = d\<close> is also \<open>t = 0\<close>, the check \<^verbatim>\<open>t === 0\<close> comes first,
  and the function returns \<open>b\<close>.
\<close>

theorem easeInOutExpo_zero_duration_counterexample:
  "easeInOutExpo 0 0 1 0 = 0 \<and> easeInOutExpo 0 0 1 0 \<noteq> 0 + 1"
  by (simp add: easeInOutExpo_def)



section \<open>Properties of the object transforms\<close>

subsection \<open>Matrices\<close>





subsection \<open>Applying a transform\<close>

text \<open>
  The flags are reset before \<^verbatim>\<open>Object.assign\<close>: a flip that the decomposition does
  hold is the one the object ends with.
\<close>

lemma decomposed_flip_takes_precedence:
  assumes "set_scale_assigns env" and "repositions_center env"
    and "dec_flipX (qrDecompose env transform) = Some v"
  shows "flipX (applyTransformToObject env object transform) = v"
  using assms
  by (simp add: applyTransformToObject_def Let_def assign_otherOptions_def
        set_scale_assigns_def repositions_center_def)

text \<open>
  C4, as amended. For every object and every transform matrix whose decomposition holds
  no flip component, \<^verbatim>\<open>applyTransformToObject\<close> resets \<open>flipX\<close> and \<open>flipY\<close> to \<open>false\<close>,
  assigns the \<open>angle\<close>, \<open>skewX\<close> and \<open>skewY\<close> of the decomposition, and then hands the
  decomposed \<open>scaleX\<close>, \<open>scaleY\<close> to the object's own \<^verbatim>\<open>set\<close> and the decomposed point
  \<open>(translateX, translateY)\<close>, with the anchor \<^verbatim>\<open>'center', 'center'\<close>, to the object's own
  \<^verbatim>\<open>setPositionByOrigin\<close>: the object ends as these two methods leave it. When \<^verbatim>\<open>set\<close>
  assigns the two fields as they are given and \<^verbatim>\<open>setPositionByOrigin\<close> repositions about
  the centre, \<open>flipX\<close> and \<open>flipY\<close> end \<open>false\<close>, the five fields are those of the
  decomposition, and the point is the centre of the object.
\<close>

theorem applyTransformToObject_effect:
  assumes "dec_flipX (qrDecompose env transform) = None"
    and "dec_flipY (qrDecompose env transform) = None"
  shows "applyTransformToObject env object transform =
           setPositionByOrigin env
             (set_scale env
                (object\<lparr>flipX := False, flipY := False,
                        skewX := dec_skewX (qrDecompose env transform),
                        skewY := dec_skewY (qrDecompose env transform),
                        angle := dec_angle (qrDecompose env transform)\<rparr>)
                (dec_scaleX (qrDecompose env transform))
                (dec_scaleY (qrDecompose env transform)))
             (translateX (qrDecompose env transform), translateY (qrDecompose env transform))
             ''center'' ''center'' \<and>
         (set_scale_assigns env \<and> repositions_center env \<longrightarrow>
            flipX (applyTransformToObject env object transform) = False \<and>
            flipY (applyTransformToObject env object transform) = False \<and>
            angle (applyTransformToObject env object transform) =
              dec_angle (qrDecompose env transform) \<and>
            skewX (applyTransformToObject env object transform) =
              dec_skewX (qrDecompose env transform) \<and>
            skewY (applyTransformToObject env object transform) =
              dec_skewY (qrDecompose env transform) \<and>
            scaleX (applyTransformToObject env object transform) =
              dec_scaleX (qrDecompose env transform) \<and>
            scaleY (applyTransformToObject env object transform) =
              dec_scaleY (qrDecompose env transform) \<and>
            getCenterPoint env (applyTransformToObject env object transform) =
              (translateX (qrDecompose env transform),
               translateY (qrDecompose env transform)))"
proof (intro conjI impI)
  show "applyTransformToObject env object transform =
           setPositionByOrigin env
             (set_scale env
                (object\<lparr>flipX := False, flipY := False,
                        skewX := dec_skewX (qrDecompose env transform),
                        skewY := dec_skewY (qrDecompose env transform),
                        angle := dec_angle (qrDecompose env transform)\<rparr>)
                (dec_scaleX (qrDecompose env transform))
                (dec_scaleY (qrDecompose env transform)))
             (translateX (qrDecompose env transform), translateY (qrDecompose env transform))
             ''center'' ''center''"
    using assms
    by (cases object) (simp add: applyTransformToObject_def Let_def assign_otherOptions_def)
qed (use assms in \<open>simp_all add: applyTransformToObject_def Let_def assign_otherOptions_def
        set_scale_assigns_def repositions_center_def\<close>)

text \<open>
  At the box primitives: an object that is flipped, given the matrix that scales by
  \<open>(2, 4)\<close> and translates by \<open>(10, 20)\<close>. Its centre becomes \<open>(10, 20)\<close>, its top left
  corner \<open>(- 40, - 5)\<close>.
\<close>

theorem applyTransformToObject_effect_witness:
  "set_scale_assigns box_primitives \<and> repositions_center box_primitives \<and>
   dec_flipX (qrDecompose box_primitives (2, 0, 0, 4, 10, 20)) = None \<and>
   dec_flipY (qrDecompose box_primitives (2, 0, 0, 4, 10, 20)) = None \<and>
   flipX box_object \<and>
   applyTransformToObject box_primitives box_object (2, 0, 0, 4, 10, 20) =
     \<lparr>scaleX = 2, scaleY = 4, skewX = 0, skewY = 0, angle = 0, left = - 40,
      flipX = False, flipY = False, top_y = - 5\<rparr> \<and>
   getCenterPoint box_primitives
     (applyTransformToObject box_primitives box_object (2, 0, 0, 4, 10, 20)) = (10, 20)"
  using applyTransformToObject_effect [of box_primitives "(2, 0, 0, 4, 10, 20)" box_object]
  by (simp add: set_scale_assigns_def repositions_center_def box_primitives_def
        box_object_def applyTransformToObject_def assign_otherOptions_def)

text \<open>
  The claim as it was stated has, for every object and every matrix, both flags
  \<open>false\<close> and the scales of the decomposition. The matrix \<open>(2, 0, 0, - 4, 10, 20)\<close> mirrors
  the vertical axis; its decomposition holds no flip component and the scale \<open>- 4\<close>. An
  object whose \<^verbatim>\<open>set\<close> keeps the scale non-negative ends with \<open>flipY\<close> true and
  \<open>scaleY = 4\<close>.
\<close>

theorem applyTransformToObject_flip_counterexample:
  "dec_flipX (qrDecompose flipping_primitives (2, 0, 0, - 4, 10, 20)) = None \<and>
   dec_flipY (qrDecompose flipping_primitives (2, 0, 0, - 4, 10, 20)) = None \<and>
   dec_scaleY (qrDecompose flipping_primitives (2, 0, 0, - 4, 10, 20)) = - 4 \<and>
   flipY (applyTransformToObject flipping_primitives box_object (2, 0, 0, - 4, 10, 20)) = True \<and>
   scaleY (applyTransformToObject flipping_primitives box_object (2, 0, 0, - 4, 10, 20)) = 4"
  by (simp add: flipping_primitives_def flipping_set_def box_primitives_def box_object_def
        applyTransformToObject_def assign_otherOptions_def)

subsection \<open>Removing and adding a transform\<close>




subsection \<open>Resetting and saving\<close>

text \<open>
  With a \<^verbatim>\<open>rotate\<close> that only assigns the angle, the object ends with the six fields
  reset, the angle \<open>0\<close>, and everything else as it was.
\<close>

lemma resetObjectTransform_with_angle_setter:
  assumes "\<And>object a. rotate env object a = object\<lparr>angle := a\<rparr>"
  shows "resetObjectTransform env target =
           target\<lparr>scaleX := 1, scaleY := 1, skewX := 0, skewY := 0,
                   flipX := False, flipY := False, angle := 0\<rparr>"
  by (simp add: resetObjectTransform_def Let_def assms)

text \<open>
  C8, as amended. For every target, \<^verbatim>\<open>resetObjectTransform\<close> itself writes neither
  \<open>left\<close> nor \<open>top\<close>: it assigns \<open>scaleX = scaleY = 1\<close>, \<open>skewX = skewY = 0\<close>,
  \<open>flipX = flipY = false\<close>, and then rotates the object to the angle \<open>0\<close> by the object's
  own \<^verbatim>\<open>rotate(0)\<close>. The object after the call is what \<^verbatim>\<open>rotate(0)\<close> returns for the
  object so assigned, so that \<open>left\<close> and \<open>top\<close> are unchanged exactly when that
  \<^verbatim>\<open>rotate(0)\<close> leaves them unchanged.
\<close>

theorem resetObjectTransform_effect:
  "(let assigned = target\<lparr>scaleX := 1, scaleY := 1, skewX := 0, skewY := 0,
                           flipX := False, flipY := False\<rparr>
    in resetObjectTransform env target = rotate env assigned 0 \<and>
       left assigned = left target \<and>
       top_y assigned = top_y target \<and>
       angle assigned = angle target \<and>
       (left (resetObjectTransform env target) = left target \<longleftrightarrow>
          left (rotate env assigned 0) = left assigned) \<and>
       (top_y (resetObjectTransform env target) = top_y target \<longleftrightarrow>
          top_y (rotate env assigned 0) = top_y assigned))"
  by (simp add: resetObjectTransform_def Let_def)

text \<open>
  The claim as it was stated has \<open>left\<close> and \<open>top\<close> unchanged for every target. A box
  turned by 180 degrees whose \<^verbatim>\<open>rotate\<close> turns it about its centre ends with the six
  fields reset and the angle \<open>0\<close>, and with its corner moved from \<open>(5, 7)\<close> to
  \<open>(- 95, - 43)\<close>.
\<close>

theorem resetObjectTransform_position_counterexample:
  "left (box_object\<lparr>angle := 180\<rparr>) = 5 \<and> top_y (box_object\<lparr>angle := 180\<rparr>) = 7 \<and>
   resetObjectTransform pivot_primitives (box_object\<lparr>angle := 180\<rparr>) =
     \<lparr>scaleX = 1, scaleY = 1, skewX = 0, skewY = 0, angle = 0, left = - 95,
      flipX = False, flipY = False, top_y = - 43\<rparr>"
  by (simp add: resetObjectTransform_def Let_def pivot_primitives_def pivot_rotate_def
        half_diagonal_def box_primitives_def box_object_def)

lemma mutations_elsewhere:
  "r \<noteq> target \<Longrightarrow> fold (\<lambda>v s. mutate s target v) vs h ! r = h ! r"
  by (induction vs arbitrary: h) (simp_all add: mutate_def)

lemma save_call_no_object: "length h \<le> target \<Longrightarrow> save_call h target = Inl TypeError"
  by (simp add: save_call_def)

text \<open>
  C9. For every target, \<^verbatim>\<open>saveObjectTransform\<close> returns a new record (its reference \<open>r\<close>
  is none of the store before the call) whose nine fields are those of the target at
  the call; the call changes no object of the store, the target included; and the
  record is the same after any sequence of later assignments to the target.
\<close>

theorem saveObjectTransform_snapshot:
  assumes "target < length h"
  shows "\<exists>h' r. save_call h target = Inr (h', r) \<and>
           r \<notin> {..<length h} \<and> r < length h' \<and>
           (\<forall>a < length h. h' ! a = h ! a) \<and>
           scaleX (h' ! r) = scaleX (h ! target) \<and>
           scaleY (h' ! r) = scaleY (h ! target) \<and>
           skewX (h' ! r) = skewX (h ! target) \<and>
           skewY (h' ! r) = skewY (h ! target) \<and>
           angle (h' ! r) = angle (h ! target) \<and>
           left (h' ! r) = left (h ! target) \<and>
           flipX (h' ! r) = flipX (h ! target) \<and>
           flipY (h' ! r) = flipY (h ! target) \<and>
           top_y (h' ! r) = top_y (h ! target) \<and>
           (\<forall>vs. fold (\<lambda>v s. mutate s target v) vs h' ! r = h' ! r)"
proof (intro exI conjI)
  show "save_call h target = Inr (h @ [saveObjectTransform (h ! target)], length h)"
    using assms by (simp add: save_call_def)
  show "\<forall>a < length h. (h @ [saveObjectTransform (h ! target)]) ! a = h ! a"
    by (simp add: nth_append)
  show "\<forall>vs. fold (\<lambda>v s. mutate s target v) vs (h @ [saveObjectTransform (h ! target)])
               ! length h
          = (h @ [saveObjectTransform (h ! target)]) ! length h"
    using assms by (simp add: mutations_elsewhere)
qed (simp_all add: saveObjectTransform_def)

theorem saveObjectTransform_snapshot_witness:
  "(0::nat) < length [box_object] \<and>
   save_call [box_object] 0 = Inr ([box_object, box_object], 1) \<and>
   mutate [box_object, box_object] 0 (box_object\<lparr>left := 99\<rparr>) =
     [box_object\<lparr>left := 99\<rparr>, box_object]"
  using saveObjectTransform_snapshot [of 0 "[box_object]"]
  by (simp add: save_call_def saveObjectTransform_def mutate_def box_object_def)

end
